theory Spec2Isabelle
  imports Main
begin

section \<open>Tornado-Tester: a shallow embedding\<close>

text \<open>
  The theory follows the three modules of the package: \<^verbatim>\<open>tornado_tester/tester.py\<close>
  (the \<^verbatim>\<open>Tester\<close> class, \<^verbatim>\<open>_add_query_params\<close> and \<^verbatim>\<open>gen_test\<close>),
  \<^verbatim>\<open>tornado_tester/httpclient.py\<close> (the client's \<^verbatim>\<open>fetch\<close> and
  \<^verbatim>\<open>encode_multipart\<close>) and \<^verbatim>\<open>tornado_tester/util.py\<close> (\<^verbatim>\<open>encoding\<close>).

  Python's \<^verbatim>\<open>str\<close> and \<^verbatim>\<open>bytes\<close> are both \<open>string\<close> here: a text is read as the
  sequence of its UTF-8 code units, so \<^verbatim>\<open>s.encode('utf-8')\<close> keeps the characters.
  An exception is a value of type \<open>error\<close>; a function that can raise returns
  \<open>error + 'a\<close> with \<open>Inl\<close> for the exception.
\<close>

subsection \<open>Exceptions and Python objects\<close>

datatype error =
    RuntimeError string
  | AttributeError string
  | TypeError string
  | KeyError string
  | OSError string
  | HTTPError nat
  | AssertionError
  | KeyboardInterrupt

text \<open>\<^verbatim>\<open>isinstance(e, Exception)\<close>: every class above but \<^verbatim>\<open>KeyboardInterrupt\<close>,
  which derives from \<^verbatim>\<open>BaseException\<close> only.\<close>

fun is_Exception :: "error \<Rightarrow> bool" where
  "is_Exception KeyboardInterrupt = False"
| "is_Exception _ = True"

subsection \<open>The process and the framework's objects\<close>

type_synonym ioloop = nat

text \<open>The process-wide state the package reads and writes:
  \<^verbatim>\<open>tornado.ioloop.IOLoop.current()\<close>, and the calls made on framework objects, in order.\<close>

datatype event =
    MakeCurrent ioloop
  | CloseClient
  | StopServer
  | CloseSocket

record world =
  current :: ioloop
  events :: "event list"

record socket =
  getsockname :: "string \<times> nat"

text \<open>\<^verbatim>\<open>tornado.testing.bind_unused_port()\<close> returns one socket,
  \<^verbatim>\<open>netutil.bind_sockets(port)\<close> a list of sockets.\<close>

datatype sockval = Sock socket | SockList "socket list"

record 'app http_server =
  srv_app :: 'app
  srv_io_loop :: ioloop
  srv_sockets :: "sockval list"

text \<open>What the framework answers to the calls of \<^verbatim>\<open>setup\<close> that bind a port:
  each may raise.\<close>

record ext =
  bind_unused_port :: "error + (socket \<times> nat)"
  bind_sockets :: "nat \<Rightarrow> error + socket list"
  add_socket :: "sockval \<Rightarrow> error option"

subsection \<open>\<^verbatim>\<open>class Tester\<close>\<close>

record ('app, 'client) tester =
  app :: 'app
  io_loop :: ioloop
  priv_setup :: bool
  priv_used :: bool
  http_client_class :: "ioloop \<Rightarrow> 'client"
  priv_http_client :: "'client option"
  priv_last_current :: "ioloop option"
  priv_http_server :: "'app http_server option"
  priv_sock :: "sockval option"
  port :: "nat option"

text \<open>\<^verbatim>\<open>Tester.__init__(app, port, io_loop, http_client_class)\<close>; the loop is the one
  given, or the new one \<^verbatim>\<open>tornado.ioloop.IOLoop()\<close> made, passed in as \<open>new_loop\<close>.\<close>

definition Tester ::
  "'app \<Rightarrow> nat option \<Rightarrow> ioloop option \<Rightarrow> (ioloop \<Rightarrow> 'client) \<Rightarrow> ioloop
    \<Rightarrow> ('app, 'client) tester" where
  "Tester a p l cls new_loop =
     \<lparr>app = a,
      io_loop = (case l of Some i \<Rightarrow> i | None \<Rightarrow> new_loop),
      priv_setup = False,
      priv_used = False,
      http_client_class = cls,
      priv_http_client = None,
      priv_last_current = None,
      priv_http_server = None,
      priv_sock = None,
      port = p\<rparr>"

definition not_set_up_property :: error where
  "not_set_up_property =
     RuntimeError ''Tester should be set up before using this property.''"

definition not_set_up_method :: error where
  "not_set_up_method =
     RuntimeError ''Tester should be set up before using this method.''"

definition sock :: "('app, 'client) tester \<Rightarrow> error + sockval option" where
  "sock t = (if \<not> priv_setup t then Inl not_set_up_property else Inr (priv_sock t))"

definition http_server :: "('app, 'client) tester \<Rightarrow> error + 'app http_server option" where
  "http_server t =
     (if \<not> priv_setup t then Inl not_set_up_property else Inr (priv_http_server t))"

definition http_client :: "('app, 'client) tester \<Rightarrow> error + 'client option" where
  "http_client t =
     (if \<not> priv_setup t then Inl not_set_up_property else Inr (priv_http_client t))"

text \<open>\<^verbatim>\<open>Tester.setup\<close> (\<open>setup\<close> is a command of Isabelle, hence the longer name).
  An exception leaves the fields assigned before it as they are, so the
  result is the pair of what was raised (or \<open>Inr ()\<close>) and the state reached.\<close>

definition tester_setup ::
  "ext \<Rightarrow> ('app, 'client) tester \<times> world
    \<Rightarrow> (error + unit) \<times> ('app, 'client) tester \<times> world" where
  "tester_setup x tw =
     (let (t, w) = tw in
      if priv_setup t then (Inl (RuntimeError ''This tester was already setup.''), t, w)
      else if priv_used t then (Inl (RuntimeError ''Tester can not be reused.''), t, w)
      else
        let t1 = t\<lparr>priv_used := True\<rparr>;
            t2 = t1\<lparr>priv_last_current := Some (current w)\<rparr>;
            w1 = w\<lparr>current := io_loop t2, events := events w @ [MakeCurrent (io_loop t2)]\<rparr>;
            srv = \<lparr>srv_app = app t2, srv_io_loop = io_loop t2, srv_sockets = []\<rparr>;
            t3 = t2\<lparr>priv_http_server := Some srv\<rparr>;
            t4 = t3\<lparr>priv_http_client := Some (http_client_class t3 (srv_io_loop srv))\<rparr>;
            bound =
              (case port t4 of
                 None \<Rightarrow>
                   (case bind_unused_port x of
                      Inl e \<Rightarrow> Inl e
                    | Inr (s, p) \<Rightarrow> Inr (t4\<lparr>priv_sock := Some (Sock s), port := Some p\<rparr>, Sock s))
               | Some p \<Rightarrow>
                   (case bind_sockets x p of
                      Inl e \<Rightarrow> Inl e
                    | Inr ss \<Rightarrow> Inr (t4\<lparr>priv_sock := Some (SockList ss)\<rparr>, SockList ss)))
        in case bound of
             Inl e \<Rightarrow> (Inl e, t4, w1)
           | Inr (t5, sv) \<Rightarrow>
               (case add_socket x sv of
                  Some e \<Rightarrow> (Inl e, t5, w1)
                | None \<Rightarrow>
                    (Inr (),
                     t5\<lparr>priv_http_server := Some (srv\<lparr>srv_sockets := [sv]\<rparr>),
                        priv_setup := True\<rparr>,
                     w1)))"

text \<open>\<^verbatim>\<open>teardown\<close>. A handle that is \<^verbatim>\<open>None\<close>, or the list of sockets, has no
  \<^verbatim>\<open>close\<close>, \<^verbatim>\<open>stop\<close> or \<^verbatim>\<open>make_current\<close>: Python raises AttributeError there.\<close>

definition teardown ::
  "('app, 'client) tester \<times> world \<Rightarrow> (error + unit) \<times> ('app, 'client) tester \<times> world" where
  "teardown tw =
     (let (t, w) = tw in
      if \<not> priv_setup t
      then (Inl (RuntimeError ''You can not teardown tester not setup yet.''), t, w)
      else
        case priv_http_client t of
          None \<Rightarrow> (Inl (AttributeError ''close''), t, w)
        | Some c \<Rightarrow>
            let w1 = w\<lparr>events := events w @ [CloseClient]\<rparr> in
            (case priv_http_server t of
               None \<Rightarrow> (Inl (AttributeError ''stop''), t, w1)
             | Some srv \<Rightarrow>
                 let w2 = w1\<lparr>events := events w1 @ [StopServer]\<rparr> in
                 (case priv_sock t of
                    Some (Sock s) \<Rightarrow>
                      let w3 = w2\<lparr>events := events w2 @ [CloseSocket]\<rparr> in
                      (case priv_last_current t of
                         None \<Rightarrow> (Inl (AttributeError ''make_current''), t, w3)
                       | Some l \<Rightarrow>
                           (Inr (),
                            t\<lparr>priv_last_current := None,
                              priv_http_client := None,
                              priv_http_server := None,
                              priv_sock := None,
                              priv_setup := False\<rparr>,
                            w3\<lparr>current := l, events := events w3 @ [MakeCurrent l]\<rparr>))
                  | _ \<Rightarrow> (Inl (AttributeError ''close''), t, w2))))"

text \<open>The three states of the spec's state machine, read off the two flags.\<close>

datatype phase = Fresh | Active | TornDown

definition phase :: "('app, 'client) tester \<Rightarrow> phase" where
  "phase t = (if priv_setup t then Active else if priv_used t then TornDown else Fresh)"

text \<open>Any sequence of \<^verbatim>\<open>setup\<close> and \<^verbatim>\<open>teardown\<close> calls, each with what the framework
  answers; a call that raises is caught by the caller and the sequence goes on.\<close>

datatype call = Setup ext | Teardown

fun do_call ::
  "call \<Rightarrow> ('app, 'client) tester \<times> world \<Rightarrow> ('app, 'client) tester \<times> world" where
  "do_call (Setup x) tw = snd (tester_setup x tw)"
| "do_call Teardown tw = snd (teardown tw)"

fun do_calls ::
  "call list \<Rightarrow> ('app, 'client) tester \<times> world \<Rightarrow> ('app, 'client) tester \<times> world" where
  "do_calls [] tw = tw"
| "do_calls (c # cs) tw = do_calls cs (do_call c tw)"

text \<open>\<^verbatim>\<open>_used\<close> is set before \<^verbatim>\<open>_setup\<close> and never cleared, so every state a
  constructed \<^verbatim>\<open>Tester\<close> reaches satisfies \<open>used_inv\<close>.\<close>

definition used_inv :: "('app, 'client) tester \<Rightarrow> bool" where
  "used_inv t = (if priv_setup t then priv_used t else True)"

subsection \<open>URLs\<close>

text \<open>\<^verbatim>\<open>str(n)\<close> for a non-negative integer, as \<^verbatim>\<open>'{1}'.format\<close> prints the port.\<close>

definition digit_char :: "nat \<Rightarrow> char" where
  "digit_char d = ''0123456789'' ! d"

function str_nat :: "nat \<Rightarrow> string" where
  "str_nat n = (if n < 10 then [digit_char n] else str_nat (n div 10) @ [digit_char (n mod 10)])"
  by pat_completeness auto
termination
  by (relation "measure id") auto

declare str_nat.simps [simp del]

definition startswith :: "string \<Rightarrow> string \<Rightarrow> bool" where
  "startswith s p = (take (length p) s = p)"

text \<open>\<^verbatim>\<open>s.split(c, 1)\<close>: the part before the first \<open>c\<close>, and the part after it when
  there is a \<open>c\<close> (the list has length 2 then, and length 1 otherwise).\<close>

fun split_once :: "char \<Rightarrow> string \<Rightarrow> string \<times> string option" where
  "split_once c [] = ([], None)"
| "split_once c (x # xs) =
     (if x = c then ([], Some xs)
      else (case split_once c xs of (a, b) \<Rightarrow> (x # a, b)))"

text \<open>\<^verbatim>\<open>_add_query_params(url, params)\<close>. \<^verbatim>\<open>params\<close> is the dictionary of keyword
  arguments, kept as the list of its items; \<^verbatim>\<open>urllib.parse.urlencode\<close> is the
  standard library's and is a parameter.\<close>

definition add_query_params ::
  "((string \<times> 'v) list \<Rightarrow> string) \<Rightarrow> string \<Rightarrow> (string \<times> 'v) list \<Rightarrow> string" where
  "add_query_params urlencode url params =
     (if params \<noteq> [] then
        let query = urlencode params;
            split = split_once CHR ''#'' url;
            url1 = (if CHR ''?'' \<in> set (fst split)
                    then fst split @ ''&'' @ query
                    else fst split @ ''?'' @ query)
        in (case snd split of
              Some fragment \<Rightarrow> url1 @ ''#'' @ fragment
            | None \<Rightarrow> url1)
      else url)"

text \<open>\<^verbatim>\<open>Tester.base_url\<close>: the property checks \<^verbatim>\<open>_setup\<close>, then reads \<^verbatim>\<open>self.sock\<close>
  (which checks again) and formats the first two components of its address.\<close>

definition base_url :: "('app, 'client) tester \<Rightarrow> error + string" where
  "base_url t =
     (if \<not> priv_setup t then Inl not_set_up_property
      else
        case sock t of
          Inl e \<Rightarrow> Inl e
        | Inr (Some (Sock s)) \<Rightarrow>
            (case getsockname s of (host, p) \<Rightarrow> Inr (''http://'' @ host @ '':'' @ str_nat p))
        | Inr _ \<Rightarrow> Inl (AttributeError ''getsockname''))"

text \<open>\<^verbatim>\<open>Tester.url_for(name_or_url, *args, **kwargs)\<close>. The application's
  \<^verbatim>\<open>reverse_url\<close> belongs to the framework and is a parameter; it raises for a name
  it does not know.\<close>

definition url_for ::
  "('app \<Rightarrow> string \<Rightarrow> 'arg list \<Rightarrow> error + string) \<Rightarrow> ((string \<times> 'v) list \<Rightarrow> string)
    \<Rightarrow> ('app, 'client) tester \<Rightarrow> string \<Rightarrow> 'arg list \<Rightarrow> (string \<times> 'v) list
    \<Rightarrow> error + string" where
  "url_for reverse_url urlencode t name_or_url args kwargs =
     (if \<not> priv_setup t then Inl not_set_up_method
      else if startswith name_or_url ''http://'' \<or> startswith name_or_url ''https://''
      then Inr (add_query_params urlencode name_or_url kwargs)
      else if startswith name_or_url ''/''
      then (case base_url t of
              Inl e \<Rightarrow> Inl e
            | Inr b \<Rightarrow> Inr (add_query_params urlencode (b @ name_or_url) kwargs))
      else (case base_url t of
              Inl e \<Rightarrow> Inl e
            | Inr b \<Rightarrow>
                (case reverse_url (app t) name_or_url args of
                   Inl e \<Rightarrow> Inl e
                 | Inr path \<Rightarrow> Inr (add_query_params urlencode (b @ path) kwargs))))"

subsection \<open>\<^verbatim>\<open>tornado_tester/httpclient.py\<close>\<close>

text \<open>The values the client handles: \<^verbatim>\<open>None\<close>, a \<^verbatim>\<open>str\<close>, a \<^verbatim>\<open>bytes\<close>, an \<^verbatim>\<open>int\<close>.\<close>

datatype pyobj = PyNone | PyStr string | PyBytes string | PyInt int

definition str_int :: "int \<Rightarrow> string" where
  "str_int i = (if i < 0 then ''-'' @ str_nat (nat (- i)) else str_nat (nat i))"

text \<open>\<^verbatim>\<open>utf8(s)\<close>: a \<^verbatim>\<open>str\<close> is encoded, a \<^verbatim>\<open>bytes\<close> is returned as it is, and anything
  else goes through \<^verbatim>\<open>str\<close> first (\<^verbatim>\<open>utf8(str(s))\<close>).\<close>

fun utf8 :: "pyobj \<Rightarrow> string" where
  "utf8 (PyStr s) = s"
| "utf8 (PyBytes b) = b"
| "utf8 PyNone = ''None''"
| "utf8 (PyInt i) = str_int i"

definition dquote :: char where
  "dquote = CHR 0x22"

definition CRLF :: string where
  "CRLF = [CHR 0x0D, CHR 0x0A]"

text \<open>\<^verbatim>\<open>sep.join(xs)\<close>.\<close>

fun join :: "string \<Rightarrow> string list \<Rightarrow> string" where
  "join sep [] = []"
| "join sep [x] = x"
| "join sep (x # y # ys) = x @ sep @ join sep (y # ys)"

text \<open>A file object is what its \<^verbatim>\<open>read()\<close> returns.\<close>

record fileobj =
  read :: string

text \<open>\<^verbatim>\<open>random_boundary()\<close>; \<open>drawn\<close> is the text the calls of \<^verbatim>\<open>random.choice\<close> on
  \<^verbatim>\<open>_BOUNDARY_CHARS\<close> produced, 20 to 50 characters long.\<close>

definition BOUNDARY_CHARS :: string where
  "BOUNDARY_CHARS =
     ''abcdefghijklmnopqrstuvwxyzABCDEFGHIJKLMNOPQRSTUVWXYZ'' @ ''0123456789'' @ ''-_''"

definition random_boundary :: "string \<Rightarrow> string" where
  "random_boundary drawn = utf8 (PyStr (''---'' @ drawn @ ''---''))"

text \<open>\<^verbatim>\<open>encode_multipart(form, files, boundary)\<close>, with \<^verbatim>\<open>form\<close> and \<^verbatim>\<open>files\<close> already the
  sequences of their items. Each loop appends four lines per item.\<close>

definition form_lines :: "string \<Rightarrow> pyobj list \<Rightarrow> pyobj \<times> pyobj \<Rightarrow> pyobj list" where
  "form_lines boundary lines kv =
     (case kv of (key, value) \<Rightarrow>
        lines @ [PyBytes (''--'' @ boundary)]
              @ [PyBytes (''Content-Disposition: form-data; '' @ ''name='' @ [dquote]
                          @ utf8 key @ [dquote])]
              @ [PyStr '''']
              @ [value])"

definition file_lines ::
  "string \<Rightarrow> pyobj list \<Rightarrow> pyobj \<times> pyobj \<times> fileobj \<Rightarrow> pyobj list" where
  "file_lines boundary lines kf =
     (case kf of (key, filename, fileobj) \<Rightarrow>
        lines @ [PyBytes (''--'' @ boundary)]
              @ [PyBytes (''Content-Disposition: form-data; name='' @ [dquote] @ utf8 key
                          @ [dquote] @ ''; '' @ ''filename='' @ [dquote] @ utf8 filename
                          @ [dquote])]
              @ [PyStr '''']
              @ [PyBytes (read fileobj)])"

definition encode_multipart ::
  "(pyobj \<times> pyobj) list \<Rightarrow> (pyobj \<times> pyobj \<times> fileobj) list \<Rightarrow> string \<Rightarrow> string" where
  "encode_multipart form files boundary =
     (let lines0 = [];
          lines1 = foldl (form_lines boundary) lines0 form;
          lines2 = foldl (file_lines boundary) lines1 files;
          lines3 = lines2 @ [PyBytes (''--'' @ boundary @ ''--'')];
          lines4 = lines3 @ [PyStr '''']
      in join CRLF (map utf8 lines4))"

text \<open>A keyword argument of \<^verbatim>\<open>fetch\<close>: a plain value, a form (a dictionary or a
  sequence of pairs, as the list of its items), the files (likewise), a dictionary of
  headers, or any other object.\<close>

datatype 'o kwarg =
    Obj pyobj
  | Pairs "(pyobj \<times> pyobj) list"
  | FilePairs "(pyobj \<times> pyobj \<times> fileobj) list"
  | Headers "string \<rightharpoonup> pyobj"
  | Other 'o

type_synonym 'o kwargs = "string \<rightharpoonup> 'o kwarg"

text \<open>Python's truth value: \<^verbatim>\<open>None\<close>, zero and the empty text, sequence and dictionary
  are false; an object of another class is true unless its class says otherwise.\<close>

fun truthy :: "'o kwarg \<Rightarrow> bool" where
  "truthy (Obj PyNone) = False"
| "truthy (Obj (PyStr s)) = (s \<noteq> [])"
| "truthy (Obj (PyBytes b)) = (b \<noteq> [])"
| "truthy (Obj (PyInt i)) = (i \<noteq> 0)"
| "truthy (Pairs ps) = (ps \<noteq> [])"
| "truthy (FilePairs fs) = (fs \<noteq> [])"
| "truthy (Headers h) = (dom h \<noteq> {})"
| "truthy (Other x) = True"

text \<open>\<^verbatim>\<open>kwargs.pop(k, d)\<close> and \<^verbatim>\<open>kwargs.setdefault(k, d)\<close>.\<close>

definition pop :: "'o kwargs \<Rightarrow> string \<Rightarrow> 'o kwarg \<Rightarrow> 'o kwarg \<times> 'o kwargs" where
  "pop kwargs k d = (case kwargs k of None \<Rightarrow> (d, kwargs) | Some v \<Rightarrow> (v, kwargs(k := None)))"

definition setdefault :: "'o kwargs \<Rightarrow> string \<Rightarrow> 'o kwarg \<Rightarrow> 'o kwargs" where
  "setdefault kwargs k d = (case kwargs k of None \<Rightarrow> kwargs(k \<mapsto> d) | Some v \<Rightarrow> kwargs)"

text \<open>The values the statements of \<^verbatim>\<open>fetch\<close> work on. \<^verbatim>\<open>urlencode\<close> and the loops of
  \<^verbatim>\<open>encode_multipart\<close> need the items of a form, the second loop the items of the files,
  and \<^verbatim>\<open>headers[...] = ...\<close> a dictionary; on a value of another kind Python raises
  (a TypeError for a text, a number or \<^verbatim>\<open>None\<close>), and so does the model.\<close>

definition form_items :: "'o kwarg \<Rightarrow> error + (pyobj \<times> pyobj) list" where
  "form_items v = (case v of Pairs ps \<Rightarrow> Inr ps | _ \<Rightarrow> Inl (TypeError ''form''))"

definition files_items :: "'o kwarg \<Rightarrow> error + (pyobj \<times> pyobj \<times> fileobj) list" where
  "files_items v = (case v of FilePairs fs \<Rightarrow> Inr fs | _ \<Rightarrow> Inl (TypeError ''files''))"

definition headers_dict :: "'o kwarg \<Rightarrow> error + (string \<rightharpoonup> pyobj)" where
  "headers_dict v = (case v of Headers h \<Rightarrow> Inr h | _ \<Rightarrow> Inl (TypeError ''headers''))"

text \<open>The call \<^verbatim>\<open>super().fetch(request, callback=callback, raise_error=raise_error,
  **kwargs)\<close> that ends \<^verbatim>\<open>fetch\<close>.\<close>

record ('rq, 'cb, 'o) base_fetch =
  fetch_request :: 'rq
  fetch_callback :: 'cb
  fetch_raise_error :: bool
  fetch_kwargs :: "'o kwargs"

text \<open>\<^verbatim>\<open>AsyncHTTPClient.fetch(request, callback, raise_error, **kwargs)\<close>.
  \<^verbatim>\<open>urllib.parse.urlencode\<close> is the standard library's and is a parameter, and
  \<open>drawn\<close> is what \<^verbatim>\<open>random_boundary()\<close> draws when it is called.\<close>

definition fetch ::
  "((pyobj \<times> pyobj) list \<Rightarrow> string) \<Rightarrow> string \<Rightarrow> 'rq \<Rightarrow> 'cb \<Rightarrow> bool \<Rightarrow> 'o kwargs
    \<Rightarrow> error + ('rq, 'cb, 'o) base_fetch" where
  "fetch urlencode drawn rq cb re kwargs0 =
     (let (form, kwargs1) = pop kwargs0 ''form'' (Obj PyNone);
          (files, kwargs2) = pop kwargs1 ''files'' (Obj PyNone);
          call = (\<lambda>kw. \<lparr>fetch_request = rq, fetch_callback = cb,
                         fetch_raise_error = re, fetch_kwargs = kw\<rparr>)
      in
      if truthy form \<and> \<not> truthy files then
        let (hv, kwargs3) = pop kwargs2 ''headers'' (Headers Map.empty);
            kwargs4 = setdefault kwargs3 ''method'' (Obj (PyStr ''POST''))
        in case form_items form of
             Inl e \<Rightarrow> Inl e
           | Inr items \<Rightarrow>
               let body = urlencode items in
               (case headers_dict hv of
                  Inl e \<Rightarrow> Inl e
                | Inr headers \<Rightarrow>
                    let headers1 = headers(''Content-Type''
                                     \<mapsto> PyStr ''application/x-www-form-urlencoded'');
                        headers2 = headers1(''Content-Length'' \<mapsto> PyStr (str_nat (length body)));
                        kwargs5 = kwargs4(''body'' \<mapsto> Obj (PyStr body));
                        kwargs6 = kwargs5(''headers'' \<mapsto> Headers headers2)
                    in Inr (call kwargs6))
      else if truthy files then
        let (hv, kwargs3) = pop kwargs2 ''headers'' (Headers Map.empty);
            kwargs4 = setdefault kwargs3 ''method'' (Obj (PyStr ''POST''));
            form1 = (if truthy form then form else Pairs []);
            boundary = random_boundary drawn
        in case form_items form1 of
             Inl e \<Rightarrow> Inl e
           | Inr items \<Rightarrow>
               (case files_items files of
                  Inl e \<Rightarrow> Inl e
                | Inr fitems \<Rightarrow>
                    let body = encode_multipart items fitems boundary;
                        content_type = PyBytes (''multipart/form-data; boundary='' @ boundary)
                    in (case headers_dict hv of
                          Inl e \<Rightarrow> Inl e
                        | Inr headers \<Rightarrow>
                            let headers1 = headers(''Content-Type'' \<mapsto> content_type);
                                headers2 = headers1(''Content-Length''
                                             \<mapsto> PyStr (str_nat (length body)));
                                kwargs5 = kwargs4(''body'' \<mapsto> Obj (PyBytes body));
                                kwargs6 = kwargs5(''headers'' \<mapsto> Headers headers2)
                            in Inr (call kwargs6)))
      else Inr (call kwargs2))"



text \<open>Keyword arguments whose \<^verbatim>\<open>form\<close>, \<^verbatim>\<open>files\<close> and \<^verbatim>\<open>headers\<close>, where given, are of
  the kinds \<^verbatim>\<open>fetch\<close> is written for.\<close>

definition typed_kwargs :: "'o kwargs \<Rightarrow> bool" where
  "typed_kwargs kw =
     ((case kw ''form'' of
         None \<Rightarrow> True | Some (Obj PyNone) \<Rightarrow> True | Some (Pairs ps) \<Rightarrow> True | _ \<Rightarrow> False)
      \<and> (case kw ''files'' of
         None \<Rightarrow> True | Some (Obj PyNone) \<Rightarrow> True | Some (FilePairs fs) \<Rightarrow> True | _ \<Rightarrow> False)
      \<and> (case kw ''headers'' of
         None \<Rightarrow> True | Some (Headers h) \<Rightarrow> True | _ \<Rightarrow> False))"

text \<open>The two assignments \<^verbatim>\<open>kwargs['body'] = body\<close> and \<^verbatim>\<open>kwargs['headers'] = headers\<close>
  that end both branches of \<^verbatim>\<open>fetch\<close>, after the two assignments to \<^verbatim>\<open>headers\<close>.\<close>

definition with_content ::
  "'o kwargs \<Rightarrow> (string \<rightharpoonup> pyobj) \<Rightarrow> pyobj \<Rightarrow> pyobj \<Rightarrow> 'o kwargs" where
  "with_content kw headers content_type body =
     kw(''body'' \<mapsto> Obj body,
        ''headers'' \<mapsto> Headers (headers(''Content-Type'' \<mapsto> content_type,
                         ''Content-Length'' \<mapsto> PyStr (str_nat (length (utf8 body))))))"

subsection \<open>\<^verbatim>\<open>tornado_tester/util.py\<close>\<close>

text \<open>An HTTP response: its headers and its body. A header's value is a \<^verbatim>\<open>str\<close> in a
  response the framework's client builds (\<^verbatim>\<open>HTTPHeaders\<close> holds native strings); the
  constructor of \<^verbatim>\<open>HTTPResponse\<close> takes any mapping, so a value may be a \<^verbatim>\<open>bytes\<close> too.\<close>

record http_response =
  resp_headers :: "string \<rightharpoonup> pyobj"
  resp_body :: string

text \<open>\<^verbatim>\<open>encoding(response)\<close>. Only a \<^verbatim>\<open>bytes\<close> has \<^verbatim>\<open>decode\<close> (a \<^verbatim>\<open>str\<close> has none in
  Python 3: AttributeError), and only a \<^verbatim>\<open>str\<close> can follow \<^verbatim>\<open>'Content-Type: ' +\<close>
  (TypeError otherwise). \<open>decode\<close> is \<^verbatim>\<open>bytes.decode()\<close>, which raises on bytes that
  are not UTF-8, and \<open>get_param\<close> is what \<^verbatim>\<open>email.message_from_string\<close> followed by
  \<^verbatim>\<open>get_param('charset', failobj)\<close> returns for the text of the message: both are the
  standard library's and are parameters.\<close>

definition encoding ::
  "(string \<Rightarrow> error + string) \<Rightarrow> (string \<Rightarrow> string \<Rightarrow> string) \<Rightarrow> http_response
    \<Rightarrow> error + string" where
  "encoding decode get_param response =
     (if ''Content-Encoding'' \<in> dom (resp_headers response) then
        (case resp_headers response ''Content-Encoding'' of
           Some (PyBytes b) \<Rightarrow> decode b
         | _ \<Rightarrow> Inl (AttributeError ''decode''))
      else if ''Content-Type'' \<in> dom (resp_headers response) then
        (case resp_headers response ''Content-Type'' of
           Some (PyStr s) \<Rightarrow> Inr (get_param (''Content-Type: '' @ s) ''utf-8'')
         | _ \<Rightarrow> Inl (TypeError ''concatenate''))
      else Inr ''utf-8'')"

subsection \<open>\<^verbatim>\<open>gen_test\<close>\<close>

text \<open>A generator is a state and the function that resumes it. It is resumed by
  \<^verbatim>\<open>next\<close>, by \<^verbatim>\<open>send(value)\<close> or by \<^verbatim>\<open>throw(exception)\<close>, and then either yields a
  value and suspends in a new state, returns (Python's \<^verbatim>\<open>StopIteration\<close> carrying the
  value), or raises. Resuming may change the process state.\<close>

datatype 'a resume = Next | Send 'a | Throw error

datatype ('v, 'r, 's) step = Yield 'v 's | Return 'r | Raise error

type_synonym ('a, 'v, 'r, 's) generator =
  "'s \<Rightarrow> 'a resume \<Rightarrow> world \<Rightarrow> ('v, 'r, 's) step \<times> world"

text \<open>The function given to the decorator: an ordinary function of its arguments, or a
  generator function, whose call makes the initial state of a generator.\<close>

datatype ('args, 'a, 'v, 'r, 's) pyfunction =
    Function "'args \<Rightarrow> world \<Rightarrow> (error + 'r) \<times> world"
  | GeneratorFunction "'args \<Rightarrow> 's" "('a, 'v, 'r, 's) generator"

fun isgeneratorfunction :: "('args, 'a, 'v, 'r, 's) pyfunction \<Rightarrow> bool" where
  "isgeneratorfunction (Function f) = False"
| "isgeneratorfunction (GeneratorFunction init g) = True"

text \<open>How a call of the wrapper ends: with a value, with an exception, or with the
  \<^verbatim>\<open>StopIteration\<close> that \<^verbatim>\<open>next(iterator)\<close> raises when the generator returns before its
  first \<^verbatim>\<open>yield\<close>.\<close>

datatype 'r outcome = Returned 'r | Raised error | RaisedStopIteration 'r

text \<open>What the adapter does, in order: it awaits a yielded value under the loop
  (\<open>Awaited\<close>), and it resumes the generator by \<^verbatim>\<open>send\<close> or \<^verbatim>\<open>throw\<close> (\<open>Resumed\<close>, with
  what was sent or thrown). \<open>Resumed\<close> also records the loop that is current when the
  generator has suspended again, and \<open>None\<close> when the generator has ended.\<close>

datatype ('a, 'v) adapter_event =
    Awaited 'v
  | Resumed "'a resume" "ioloop option"

definition multiple_loops_error :: error where
  "multiple_loops_error = RuntimeError ''You cannot use multiple I/O loops in one test.''"

text \<open>The \<^verbatim>\<open>try\<close> around \<^verbatim>\<open>receive = (yield value)\<close>: an \<^verbatim>\<open>Exception\<close> raised there is
  thrown into the generator, any other exception leaves the coroutine, and a result is
  sent to the generator.\<close>

fun delivery :: "error + 'a \<Rightarrow> error + 'a resume" where
  "delivery (Inl e) = (if is_Exception e then Inr (Throw e) else Inl e)"
| "delivery (Inr receive) = Inr (Send receive)"

text \<open>The coroutine \<^verbatim>\<open>with_ioloop\<close>, run by \<^verbatim>\<open>io_loop.run_sync\<close>; \<open>loop\<close> is the
  \<^verbatim>\<open>io_loop\<close> captured by the wrapper. \<open>await value w\<close> is what \<^verbatim>\<open>(yield value)\<close> does
  under the running loop: it hands back a result or raises. The \<^verbatim>\<open>while True\<close> loop may
  run forever, so the function takes fuel, one unit per iteration, and answers \<open>None\<close>
  when it runs out. The result also holds the events in order.\<close>

fun with_ioloop ::
  "nat \<Rightarrow> ('v \<Rightarrow> world \<Rightarrow> (error + 'a) \<times> world) \<Rightarrow> ('a, 'v, 'r, 's) generator \<Rightarrow> ioloop
    \<Rightarrow> 'v \<Rightarrow> 's \<Rightarrow> world \<Rightarrow> 'r outcome option \<times> world \<times> ('a, 'v) adapter_event list" where
  "with_ioloop 0 await generator loop value s w = (None, w, [])"
| "with_ioloop (Suc fuel) await generator loop value s w =
     (case await value w of (received, w1) \<Rightarrow>
        (case delivery received of
           Inl e \<Rightarrow> (Some (Raised e), w1, [Awaited value])
         | Inr how \<Rightarrow>
             (case generator s how w1 of
                (Return r, w2) \<Rightarrow> (Some (Returned r), w2, [Awaited value, Resumed how None])
              | (Raise e, w2) \<Rightarrow> (Some (Raised e), w2, [Awaited value, Resumed how None])
              | (Yield value' s', w2) \<Rightarrow>
                  if current w2 \<noteq> loop then
                    (case generator s' (Throw multiple_loops_error) w2 of
                       (Return r, w3) \<Rightarrow>
                         (Some (Returned r), w3,
                          [Awaited value, Resumed how (Some (current w2)), Resumed (Throw multiple_loops_error) None])
                     | (Raise e, w3) \<Rightarrow>
                         (Some (Raised e), w3,
                          [Awaited value, Resumed how (Some (current w2)), Resumed (Throw multiple_loops_error) None])
                     | (Yield value'' s'', w3) \<Rightarrow>
                         (case with_ioloop fuel await generator loop value'' s'' w3 of
                            (res, w4, evs) \<Rightarrow>
                              (res, w4,
                               [Awaited value, Resumed how (Some (current w2)),
                                Resumed (Throw multiple_loops_error) (Some (current w3))] @ evs)))
                  else
                    (case with_ioloop fuel await generator loop value' s' w2 of
                       (res, w4, evs) \<Rightarrow>
                         (res, w4,
                          [Awaited value, Resumed how (Some (current w2))] @ evs)))))"

text \<open>\<^verbatim>\<open>io_loop.run_sync(with_ioloop)\<close>: the loop is started and runs the coroutine; when
  the coroutine is done the loop stops and makes current again the loop that was current
  when it was started, which is the captured loop itself, and \<^verbatim>\<open>run_sync\<close> returns or
  raises what the coroutine did. While the coroutine is not done, \<^verbatim>\<open>run_sync\<close> does not
  return.\<close>

definition run_sync ::
  "ioloop \<Rightarrow> 'r outcome option \<times> world \<times> ('a, 'v) adapter_event list
    \<Rightarrow> 'r outcome option \<times> world \<times> ('a, 'v) adapter_event list" where
  "run_sync loop run =
     (case run of
        (None, w, evs) \<Rightarrow> (None, w, evs)
      | (Some out, w, evs) \<Rightarrow> (Some out, w\<lparr>current := loop\<rparr>, evs))"

text \<open>The wrapper \<^verbatim>\<open>gen_test(fn)\<close> returns. A function that is not a generator function is
  called and its result returned. Otherwise the generator is made and advanced to its
  first \<^verbatim>\<open>yield\<close> by \<^verbatim>\<open>next\<close>, outside any \<^verbatim>\<open>try\<close>; the loop current then is captured, and
  \<^verbatim>\<open>run_sync\<close> gives back what the coroutine returns or raises.\<close>

definition gen_test ::
  "nat \<Rightarrow> ('v \<Rightarrow> world \<Rightarrow> (error + 'a) \<times> world) \<Rightarrow> ('args, 'a, 'v, 'r, 's) pyfunction
    \<Rightarrow> 'args \<Rightarrow> world \<Rightarrow> 'r outcome option \<times> world \<times> ('a, 'v) adapter_event list" where
  "gen_test fuel await fn args w =
     (case fn of
        Function f \<Rightarrow>
          (case f args w of
             (Inr r, w1) \<Rightarrow> (Some (Returned r), w1, [])
           | (Inl e, w1) \<Rightarrow> (Some (Raised e), w1, []))
      | GeneratorFunction init generator \<Rightarrow>
          (case generator (init args) Next w of
             (Return r, w1) \<Rightarrow> (Some (RaisedStopIteration r), w1, [])
           | (Raise e, w1) \<Rightarrow> (Some (Raised e), w1, [])
           | (Yield first s, w1) \<Rightarrow>
               run_sync (current w1)
                 (with_ioloop fuel await generator (current w1) first s w1)))"

text \<open>The check as the specification words it, after every value sent into and every
  exception thrown into the generator: whenever a resumption leaves the generator
  suspended while another loop than the captured one is current, the next event is the
  throw of the multiple-loops error.\<close>

fun claimed_every_resume_checked :: "ioloop \<Rightarrow> ('a, 'v) adapter_event list \<Rightarrow> bool" where
  "claimed_every_resume_checked loop [] = True"
| "claimed_every_resume_checked loop (Awaited v # evs) = claimed_every_resume_checked loop evs"
| "claimed_every_resume_checked loop (Resumed how None # evs) =
     claimed_every_resume_checked loop evs"
| "claimed_every_resume_checked loop (Resumed how (Some c) # evs) =
     ((if c \<noteq> loop then
         (case evs of Resumed (Throw e) c' # evs' \<Rightarrow> e = multiple_loops_error | _ \<Rightarrow> False)
       else True)
      \<and> claimed_every_resume_checked loop evs)"

text \<open>The check as the code makes it, once in each iteration of the loop. When the
  generator, resumed with the outcome of an awaited value, suspends again while another
  loop than the captured one is current, the next event is the throw of the
  multiple-loops error into it; what the generator yields in reply to that throw is
  awaited next, whichever loop is current then. When the captured loop is current, the
  next event is not a resumption. A resumption that ends the generator is the last
  event.\<close>

fun resumed_next :: "('a, 'v) adapter_event list \<Rightarrow> bool" where
  "resumed_next (Resumed how c # evs) = True"
| "resumed_next evs = False"

fun every_step_checked :: "ioloop \<Rightarrow> ('a, 'v) adapter_event list \<Rightarrow> bool" where
  "every_step_checked loop [] = True"
| "every_step_checked loop (Awaited v # evs) = every_step_checked loop evs"
| "every_step_checked loop (Resumed how None # evs) = (evs = [])"
| "every_step_checked loop (Resumed how (Some c) # evs) =
     (if c \<noteq> loop then
        (case evs of
           Resumed (Throw e) None # evs' \<Rightarrow> e = multiple_loops_error \<and> evs' = []
         | Resumed (Throw e) (Some c') # evs' \<Rightarrow>
             e = multiple_loops_error \<and> \<not> resumed_next evs' \<and> every_step_checked loop evs'
         | _ \<Rightarrow> False)
      else \<not> resumed_next evs \<and> every_step_checked loop evs)"

text \<open>The number of values a run has awaited, which is the number of iterations of the
  loop it has begun.\<close>

fun awaits :: "('a, 'v) adapter_event list \<Rightarrow> nat" where
  "awaits [] = 0"
| "awaits (Awaited v # evs) = Suc (awaits evs)"
| "awaits (Resumed how c # evs) = awaits evs"

text \<open>How a finished run's events end: with a resumption that ended the generator, the
  run returning or raising what the generator did; or with an awaited value that raised
  an exception that is no \<^verbatim>\<open>Exception\<close>, which the run raises.\<close>

fun ended_by :: "'r outcome \<Rightarrow> ('a, 'v) adapter_event list \<Rightarrow> bool" where
  "ended_by out [] = False"
| "ended_by out [Awaited v] = (case out of Raised e \<Rightarrow> \<not> is_Exception e | _ \<Rightarrow> False)"
| "ended_by out [Resumed how c] =
     (c = None \<and> (case out of RaisedStopIteration r \<Rightarrow> False | _ \<Rightarrow> True))"
| "ended_by out (ev # evs) = ended_by out evs"

text \<open>What holds of every run of the coroutine on \<open>fuel\<close>: each step is checked, the
  events do not begin with a resumption, a run that is out of fuel has begun \<open>fuel\<close>
  iterations, and a run that is done ended as \<open>ended_by\<close> says.\<close>

definition run_ok ::
  "ioloop \<Rightarrow> nat \<Rightarrow> 'r outcome option \<times> world \<times> ('a, 'v) adapter_event list \<Rightarrow> bool" where
  "run_ok loop fuel run =
     (case run of (res, w, evs) \<Rightarrow>
        every_step_checked loop evs \<and> \<not> resumed_next evs
        \<and> (case res of None \<Rightarrow> awaits evs = fuel | Some out \<Rightarrow> ended_by out evs))"

subsection \<open>Sample values\<close>

text \<open>A framework that binds port 8080 on the loopback address, an application with
  the one named route of the package's tests, and a simple instance of
  \<^verbatim>\<open>urlencode\<close> for keys and values that need no escaping.\<close>

definition sample_socket :: socket where
  "sample_socket = \<lparr>getsockname = (''127.0.0.1'', 8080)\<rparr>"

definition sample_ext :: ext where
  "sample_ext =
     \<lparr>bind_unused_port = Inr (sample_socket, 8080),
      bind_sockets = (\<lambda>p. Inr [sample_socket]),
      add_socket = (\<lambda>sv. case sv of Sock s \<Rightarrow> None | SockList ss \<Rightarrow> Some (AttributeError ''fileno''))\<rparr>"

definition sample_world :: world where
  "sample_world = \<lparr>current = 0, events = []\<rparr>"

definition sample_tester :: "(unit, ioloop) tester" where
  "sample_tester = Tester () None None (\<lambda>l. l) 1"

definition sample_reverse_url :: "unit \<Rightarrow> string \<Rightarrow> string list \<Rightarrow> error + string" where
  "sample_reverse_url a name args =
     (if name = ''hello'' then Inr ''/hello''
      else if name = ''user'' then
        (case args of [u] \<Rightarrow> Inr (''/user/'' @ u) | _ \<Rightarrow> Inl AssertionError)
      else Inl (KeyError name))"

fun sample_urlencode :: "(string \<times> string) list \<Rightarrow> string" where
  "sample_urlencode [] = []"
| "sample_urlencode [(k, v)] = k @ ''='' @ v"
| "sample_urlencode ((k, v) # kvs) = k @ ''='' @ v @ ''&'' @ sample_urlencode kvs"

definition sample_active :: "(unit, ioloop) tester" where
  "sample_active = fst (snd (tester_setup sample_ext (sample_tester, sample_world)))"

definition sample_torn_down :: "(unit, ioloop) tester" where
  "sample_torn_down =
     fst (snd (teardown (snd (tester_setup sample_ext (sample_tester, sample_world)))))"

text \<open>The upload of the package's test: the file field \<^verbatim>\<open>file\<close>, named
  \<^verbatim>\<open>hello.txt\<close>, holding \<^verbatim>\<open>Hello\<close>.\<close>

definition sample_file :: "pyobj \<times> pyobj \<times> fileobj" where
  "sample_file = (PyStr ''file'', PyStr ''hello.txt'', \<lparr>read = ''Hello''\<rparr>)"

definition sample_urlencode_form :: "(pyobj \<times> pyobj) list \<Rightarrow> string" where
  "sample_urlencode_form ps = sample_urlencode (map (\<lambda>(k, v). (utf8 k, utf8 v)) ps)"


text \<open>A test in the manner of \<^verbatim>\<open>test_another_loop\<close>. The generator makes loop 1
  current and yields \<^verbatim>\<open>a\<close>; resumed, it yields \<^verbatim>\<open>b\<close>; resumed, it makes loop 2 current and
  yields \<^verbatim>\<open>c\<close>; it catches the multiple-loops error thrown in there and yields \<^verbatim>\<open>d\<close>;
  resumed, it yields \<^verbatim>\<open>e\<close>; and it returns when the error is thrown in again. The state
  is the number of the \<^verbatim>\<open>yield\<close> it is suspended at.\<close>

fun sample_generator :: "(string, string, unit, nat) generator" where
  "sample_generator s Next w =
     (if s = 0 then (Yield ''a'' 1, w\<lparr>current := 1\<rparr>) else (Raise AssertionError, w))"
| "sample_generator s (Send r) w =
     (if s = 1 then (Yield ''b'' 2, w)
      else if s = 2 then (Yield ''c'' 3, w\<lparr>current := 2\<rparr>)
      else if s = 4 then (Yield ''e'' 5, w)
      else (Raise AssertionError, w))"
| "sample_generator s (Throw e) w =
     (if s = 3 \<and> e = multiple_loops_error then (Yield ''d'' 4, w)
      else if s = 5 \<and> e = multiple_loops_error then (Return (), w)
      else (Raise e, w))"

definition sample_await :: "string \<Rightarrow> world \<Rightarrow> (error + string) \<times> world" where
  "sample_await value w = (Inr ''Hello'', w)"

definition sample_test :: "(unit, string, string, unit, nat) pyfunction" where
  "sample_test = GeneratorFunction (\<lambda>args. 0) sample_generator"

definition sample_plain_test :: "(nat, string, string, nat, nat) pyfunction" where
  "sample_plain_test = Function (\<lambda>n w. (Inr (n + 1), w))"

section \<open>Lifecycle\<close>

lemma setup_keeps_used: "priv_used t \<Longrightarrow> priv_used (fst (snd (tester_setup x (t, w))))"
  by (simp add: tester_setup_def)

lemma setup_ok_active:
  "fst (tester_setup x (t, w)) = Inr () \<Longrightarrow>
     priv_setup (fst (snd (tester_setup x (t, w)))) \<and> priv_used (fst (snd (tester_setup x (t, w))))"
  by (auto simp: tester_setup_def Let_def split: if_splits option.splits sum.splits prod.splits)

lemma setup_keeps_inv: "used_inv t \<Longrightarrow> used_inv (fst (snd (tester_setup x (t, w))))"
  by (auto simp: tester_setup_def used_inv_def Let_def
      split: if_splits option.splits sum.splits prod.splits)

lemma teardown_keeps_used: "priv_used t \<Longrightarrow> priv_used (fst (snd (teardown (t, w))))"
  by (auto simp: teardown_def Let_def split: option.splits sockval.splits)

lemma teardown_keeps_inv: "used_inv t \<Longrightarrow> used_inv (fst (snd (teardown (t, w))))"
  by (auto simp: teardown_def used_inv_def Let_def split: option.splits sockval.splits)

lemma teardown_ok_inactive:
  "fst (teardown (t, w)) = Inr () \<Longrightarrow> \<not> priv_setup (fst (snd (teardown (t, w))))"
  by (auto simp: teardown_def Let_def split: if_splits option.splits sockval.splits)

lemma do_call_used: "priv_used (fst tw) \<Longrightarrow> priv_used (fst (do_call c tw))"
  by (cases tw; cases c) (simp_all add: setup_keeps_used teardown_keeps_used)

lemma do_call_inv: "used_inv (fst tw) \<Longrightarrow> used_inv (fst (do_call c tw))"
  by (cases tw; cases c) (simp_all add: setup_keeps_inv teardown_keeps_inv)

lemma do_calls_used: "priv_used (fst tw) \<Longrightarrow> priv_used (fst (do_calls cs tw))"
  by (induction cs arbitrary: tw) (simp_all add: do_call_used)

lemma do_calls_inv: "used_inv (fst tw) \<Longrightarrow> used_inv (fst (do_calls cs tw))"
  by (induction cs arbitrary: tw) (simp_all add: do_call_inv)

lemma do_calls_append: "do_calls (cs @ ds) tw = do_calls ds (do_calls cs tw)"
  by (induction cs arbitrary: tw) simp_all

lemma Tester_inv: "used_inv (Tester a p l cls n)"
  by (simp add: used_inv_def Tester_def)

lemma not_fresh_used: "used_inv t \<Longrightarrow> phase t \<noteq> Fresh \<longleftrightarrow> priv_used t"
  by (auto simp: used_inv_def phase_def split: if_splits)

section \<open>URLs\<close>



lemma split_once_join:
  "split_once c s = (a, b) \<Longrightarrow> c \<notin> set a \<and> s = a @ (case b of None \<Rightarrow> [] | Some f \<Rightarrow> c # f)"
  by (induction s arbitrary: a b) (auto split: if_splits prod.splits)

lemma add_query_params_empty: "add_query_params ue url [] = url"
  by (simp add: add_query_params_def)

section \<open>The sample values\<close>

lemma sample_active_eq:
  "sample_active = sample_tester\<lparr>priv_used := True, priv_last_current := Some 0,
      priv_http_server := Some \<lparr>srv_app = (), srv_io_loop = 1, srv_sockets = [Sock sample_socket]\<rparr>,
      priv_http_client := Some 1, priv_sock := Some (Sock sample_socket), port := Some 8080,
      priv_setup := True\<rparr>"
  by (simp add: sample_active_def tester_setup_def sample_ext_def sample_tester_def
      sample_world_def Tester_def Let_def)

lemma str_nat_8080: "str_nat 8080 = ''8080''"
  by (simp add: str_nat.simps digit_char_def)

lemma sample_base_url: "base_url sample_active = Inr ''http://127.0.0.1:8080''"
  by (simp add: sample_active_eq base_url_def sock_def sample_tester_def Tester_def
      sample_socket_def str_nat_8080)

lemma sample_phases:
  "phase sample_tester = Fresh" "phase sample_active = Active" "phase sample_torn_down = TornDown"
  by (simp_all add: sample_active_def sample_torn_down_def tester_setup_def teardown_def
      sample_ext_def sample_tester_def sample_world_def Tester_def Let_def phase_def)

section \<open>The client\<close>










lemma pop_eq: "pop kw k d = ((case kw k of None \<Rightarrow> d | Some v \<Rightarrow> v), kw(k := None))"
  by (auto simp: pop_def fun_eq_iff split: option.splits)

lemma setdefault_eq: "setdefault kw k d = kw(k \<mapsto> (case kw k of None \<Rightarrow> d | Some v \<Rightarrow> v))"
  by (auto simp: setdefault_def fun_eq_iff split: option.splits)

lemma fetch_unfold:
  "fetch urlencode drawn rq cb re kwargs0 =
     (let form = (case kwargs0 ''form'' of None \<Rightarrow> Obj PyNone | Some v \<Rightarrow> v);
          files = (case kwargs0 ''files'' of None \<Rightarrow> Obj PyNone | Some v \<Rightarrow> v);
          hv = (case kwargs0 ''headers'' of None \<Rightarrow> Headers Map.empty | Some v \<Rightarrow> v);
          kwargs2 = kwargs0(''form'' := None, ''files'' := None);
          kwargs4 = kwargs2(''headers'' := None,
                      ''method'' \<mapsto> (case kwargs0 ''method'' of
                                       None \<Rightarrow> Obj (PyStr ''POST'') | Some m \<Rightarrow> m));
          call = (\<lambda>kw. \<lparr>fetch_request = rq, fetch_callback = cb,
                         fetch_raise_error = re, fetch_kwargs = kw\<rparr>)
      in
      if truthy form \<and> \<not> truthy files then
        (case form_items form of
           Inl e \<Rightarrow> Inl e
         | Inr items \<Rightarrow>
             (case headers_dict hv of
                Inl e \<Rightarrow> Inl e
              | Inr headers \<Rightarrow>
                  Inr (call (with_content kwargs4 headers
                         (PyStr ''application/x-www-form-urlencoded'')
                         (PyStr (urlencode items))))))
      else if truthy files then
        (case form_items (if truthy form then form else Pairs []) of
           Inl e \<Rightarrow> Inl e
         | Inr items \<Rightarrow>
             (case files_items files of
                Inl e \<Rightarrow> Inl e
              | Inr fitems \<Rightarrow>
                  (case headers_dict hv of
                     Inl e \<Rightarrow> Inl e
                   | Inr headers \<Rightarrow>
                       Inr (call (with_content kwargs4 headers
                              (PyBytes (''multipart/form-data; boundary='' @ random_boundary drawn))
                              (PyBytes (encode_multipart items fitems (random_boundary drawn))))))))
      else Inr (call kwargs2))"
  by (simp add: fetch_def pop_eq setdefault_eq Let_def with_content_def cong: sum.case_cong)


lemma fetch_form_branch:
  assumes form: "kwargs0 ''form'' = Some (Pairs ps)" "ps \<noteq> []"
    and files: "kwargs0 ''files'' = None \<or> (\<exists>v. kwargs0 ''files'' = Some v \<and> \<not> truthy v)"
    and headers: "kwargs0 ''headers'' = None \<and> h = Map.empty \<or> kwargs0 ''headers'' = Some (Headers h)"
  shows "fetch urlencode drawn rq cb re kwargs0 =
     Inr \<lparr>fetch_request = rq, fetch_callback = cb, fetch_raise_error = re,
          fetch_kwargs = with_content
            (kwargs0(''form'' := None, ''files'' := None, ''headers'' := None,
               ''method'' \<mapsto> (case kwargs0 ''method'' of None \<Rightarrow> Obj (PyStr ''POST'') | Some m \<Rightarrow> m)))
            h (PyStr ''application/x-www-form-urlencoded'') (PyStr (urlencode ps))\<rparr>"
proof -
  from files have nf: "\<not> truthy (case kwargs0 ''files'' of None \<Rightarrow> Obj PyNone | Some v \<Rightarrow> v)"
    by auto
  from headers have hd: "headers_dict (case kwargs0 ''headers'' of None \<Rightarrow> Headers Map.empty | Some v \<Rightarrow> v) = Inr h"
    by (auto simp: headers_dict_def)
  show ?thesis
    unfolding fetch_unfold Let_def
    by (simp add: form nf hd form_items_def)
qed

lemma fetch_files_branch:
  assumes files: "kwargs0 ''files'' = Some (FilePairs fs)" "fs \<noteq> []"
    and form: "kwargs0 ''form'' = None \<and> ps = [] \<or> kwargs0 ''form'' = Some (Obj PyNone) \<and> ps = []
               \<or> kwargs0 ''form'' = Some (Pairs ps)"
    and headers: "kwargs0 ''headers'' = None \<and> h = Map.empty \<or> kwargs0 ''headers'' = Some (Headers h)"
  shows "fetch urlencode drawn rq cb re kwargs0 =
     Inr \<lparr>fetch_request = rq, fetch_callback = cb, fetch_raise_error = re,
          fetch_kwargs = with_content
            (kwargs0(''form'' := None, ''files'' := None, ''headers'' := None,
               ''method'' \<mapsto> (case kwargs0 ''method'' of None \<Rightarrow> Obj (PyStr ''POST'') | Some m \<Rightarrow> m)))
            h (PyBytes (''multipart/form-data; boundary='' @ random_boundary drawn))
            (PyBytes (encode_multipart ps fs (random_boundary drawn)))\<rparr>"
proof -
  let ?form = "case kwargs0 ''form'' of None \<Rightarrow> Obj PyNone | Some v \<Rightarrow> v"
  from form have fi: "form_items (if truthy ?form then ?form else Pairs []) = Inr ps"
    by (auto simp: form_items_def)
  from headers have hd: "headers_dict (case kwargs0 ''headers'' of None \<Rightarrow> Headers Map.empty | Some v \<Rightarrow> v) = Inr h"
    by (auto simp: headers_dict_def)
  show ?thesis
    unfolding fetch_unfold Let_def
    by (simp add: files fi hd files_items_def)
qed

lemma fetch_plain_branch:
  assumes "kwargs0 ''form'' = None \<or> (\<exists>v. kwargs0 ''form'' = Some v \<and> \<not> truthy v)"
    and "kwargs0 ''files'' = None \<or> (\<exists>v. kwargs0 ''files'' = Some v \<and> \<not> truthy v)"
  shows "fetch urlencode drawn rq cb re kwargs0 =
     Inr \<lparr>fetch_request = rq, fetch_callback = cb, fetch_raise_error = re,
          fetch_kwargs = kwargs0(''form'' := None, ''files'' := None)\<rparr>"
proof -
  from assms(1) have a: "\<not> truthy (case kwargs0 ''form'' of None \<Rightarrow> Obj PyNone | Some v \<Rightarrow> v)"
    by auto
  from assms(2) have b: "\<not> truthy (case kwargs0 ''files'' of None \<Rightarrow> Obj PyNone | Some v \<Rightarrow> v)"
    by auto
  show ?thesis
    unfolding fetch_unfold Let_def by (simp add: a b)
qed

lemma fetch_frame:
  assumes "fetch urlencode drawn rq cb re kwargs0 = Inr c"
  shows "fetch_request c = rq \<and> fetch_callback c = cb \<and> fetch_raise_error c = re
    \<and> fetch_kwargs c ''form'' = None \<and> fetch_kwargs c ''files'' = None
    \<and> (\<forall>k. k \<notin> {''form'', ''files'', ''headers'', ''method'', ''body''}
          \<longrightarrow> fetch_kwargs c k = kwargs0 k)"
  using assms unfolding fetch_unfold Let_def
  by (auto simp: with_content_def split: if_splits sum.splits)



lemma typed_headers:
  "typed_kwargs kw \<Longrightarrow> \<exists>h. kw ''headers'' = None \<and> h = Map.empty \<or> kw ''headers'' = Some (Headers h)"
  by (cases "kw ''headers''") (auto simp: typed_kwargs_def split: kwarg.splits)

lemma typed_form:
  "typed_kwargs kw \<Longrightarrow>
     \<exists>ps. kw ''form'' = None \<and> ps = [] \<or> kw ''form'' = Some (Obj PyNone) \<and> ps = []
          \<or> kw ''form'' = Some (Pairs ps)"
  by (cases "kw ''form''") (auto simp: typed_kwargs_def split: kwarg.splits pyobj.splits)

lemma typed_files:
  "typed_kwargs kw \<Longrightarrow>
     (\<exists>fs. kw ''files'' = Some (FilePairs fs) \<and> fs \<noteq> [])
     \<or> kw ''files'' = None \<or> (\<exists>v. kw ''files'' = Some v \<and> \<not> truthy v)"
  by (cases "kw ''files''") (auto simp: typed_kwargs_def split: kwarg.splits pyobj.splits)

lemma fetch_typed_returns:
  assumes t: "typed_kwargs kwargs0"
  shows "\<exists>c. fetch urlencode drawn rq cb re kwargs0 = Inr c"
proof -
  from typed_headers [OF t] obtain h where
    h: "kwargs0 ''headers'' = None \<and> h = Map.empty \<or> kwargs0 ''headers'' = Some (Headers h)" ..
  from typed_form [OF t] obtain ps where
    f: "kwargs0 ''form'' = None \<and> ps = [] \<or> kwargs0 ''form'' = Some (Obj PyNone) \<and> ps = []
          \<or> kwargs0 ''form'' = Some (Pairs ps)" ..
  from typed_files [OF t] consider
    (files) fs where "kwargs0 ''files'' = Some (FilePairs fs)" "fs \<noteq> []"
    | (nofiles) "kwargs0 ''files'' = None \<or> (\<exists>v. kwargs0 ''files'' = Some v \<and> \<not> truthy v)"
    by blast
  then show ?thesis
  proof cases
    case files
    then show ?thesis by (simp add: fetch_files_branch [OF files f h])
  next
    case nofiles
    show ?thesis
    proof (cases "kwargs0 ''form'' = Some (Pairs ps) \<and> ps \<noteq> []")
      case True
      then have p: "kwargs0 ''form'' = Some (Pairs ps)" and q: "ps \<noteq> []" by simp_all
      show ?thesis by (simp add: fetch_form_branch [OF p q nofiles h])
    next
      case False
      with f have nf: "kwargs0 ''form'' = None \<or> (\<exists>v. kwargs0 ''form'' = Some v \<and> \<not> truthy v)"
        by auto
      show ?thesis by (simp add: fetch_plain_branch [OF nf nofiles])
    qed
  qed
qed

section \<open>The adapter\<close>

lemma with_ioloop_not_resumed:
  "\<not> resumed_next (snd (snd (with_ioloop fuel await generator loop v s w)))"
  by (cases fuel) (auto split: prod.splits sum.splits step.splits)

lemma ended_by_ConsI: "ended_by out evs \<Longrightarrow> ended_by out (ev # evs)"
  by (cases evs; cases ev) simp_all

lemma run_ok_continue:
  assumes "run_ok loop fuel (res, w4, evs)"
  shows "run_ok loop (Suc fuel) (res, w4, [Awaited v, Resumed how (Some loop)] @ evs)"
  using assms
  by (cases res) (auto simp: run_ok_def intro: ended_by_ConsI)

lemma run_ok_inject:
  assumes "run_ok loop fuel (res, w4, evs)" and "c \<noteq> loop"
  shows "run_ok loop (Suc fuel)
     (res, w4, [Awaited v, Resumed how (Some c), Resumed (Throw multiple_loops_error) (Some c')] @ evs)"
  using assms
  by (cases res) (auto simp: run_ok_def intro: ended_by_ConsI)

lemma with_ioloop_ok:
  "run_ok loop fuel (with_ioloop fuel await generator loop v s w)"
proof (induction fuel arbitrary: v s w)
  case 0
  show ?case by (simp add: run_ok_def)
next
  case (Suc fuel)
  obtain received w1 where a: "await v w = (received, w1)" by (cases "await v w")
  show ?case
  proof (cases "delivery received")
    case (Inl e)
    then have "\<not> is_Exception e" by (cases received) (auto split: if_splits)
    with a Inl show ?thesis by (simp add: run_ok_def)
  next
    case (Inr how)
    obtain st w2 where g: "generator s how w1 = (st, w2)" by (cases "generator s how w1")
    show ?thesis
    proof (cases st)
      case (Return r)
      with a Inr g show ?thesis by (simp add: run_ok_def)
    next
      case (Raise e)
      with a Inr g show ?thesis by (simp add: run_ok_def)
    next
      case (Yield v' s')
      show ?thesis
      proof (cases "current w2 = loop")
        case True
        obtain res w4 evs where r: "with_ioloop fuel await generator loop v' s' w2 = (res, w4, evs)"
          by (cases "with_ioloop fuel await generator loop v' s' w2")
        from Suc.IH [of v' s' w2] r have "run_ok loop fuel (res, w4, evs)" by simp
        from run_ok_continue [OF this, of v how] a Inr g Yield True r show ?thesis by simp
      next
        case False
        obtain st3 w3 where g3: "generator s' (Throw multiple_loops_error) w2 = (st3, w3)"
          by (cases "generator s' (Throw multiple_loops_error) w2")
        show ?thesis
        proof (cases st3)
          case (Return r)
          with a Inr g Yield False g3 show ?thesis by (simp add: run_ok_def)
        next
          case (Raise e)
          with a Inr g Yield False g3 show ?thesis by (simp add: run_ok_def)
        next
          case y: (Yield v'' s'')
          obtain res w4 evs where r: "with_ioloop fuel await generator loop v'' s'' w3 = (res, w4, evs)"
            by (cases "with_ioloop fuel await generator loop v'' s'' w3")
          from Suc.IH [of v'' s'' w3] r have "run_ok loop fuel (res, w4, evs)" by simp
          from run_ok_inject [OF this False, of v how "current w3"] a Inr g Yield False g3 y r
          show ?thesis by simp
        qed
      qed
    qed
  qed
qed

lemma run_sync_events: "snd (snd (run_sync loop run)) = snd (snd run)"
  by (cases run; cases "fst run") (auto simp: run_sync_def)

lemma run_sync_result: "fst (run_sync loop run) = fst run"
  by (cases run; cases "fst run") (auto simp: run_sync_def)

lemma run_sync_current:
  "fst run = Some out \<Longrightarrow> current (fst (snd (run_sync loop run))) = loop"
  by (cases run) (auto simp: run_sync_def)

section \<open>The claims\<close>

text \<open>
  \<^bold>\<open>C1\<close>. Calling \<^verbatim>\<open>setup()\<close> on an active tester raises the runtime error
  "This tester was already setup." and leaves the tester as it was; calling it on a tester
  that is inactive but was activated before raises "Tester can not be reused."; in
  particular a \<^verbatim>\<open>setup()\<close> that follows a successful \<^verbatim>\<open>setup()\<close> and a successful
  \<^verbatim>\<open>teardown()\<close> raises the latter. No sequence of \<^verbatim>\<open>setup\<close> and \<^verbatim>\<open>teardown\<close> calls
  takes a constructed tester that has left the fresh state back to it, and in every state
  after that \<^verbatim>\<open>setup()\<close> raises a runtime error.
\<close>

theorem C1_setup_one_shot:
  fixes t :: "('app, 'client) tester" and cls :: "ioloop \<Rightarrow> 'client" and a :: 'app
  shows
  "(priv_setup t \<longrightarrow>
      tester_setup x (t, w) = (Inl (RuntimeError ''This tester was already setup.''), t, w))
   \<and> (\<not> priv_setup t \<and> priv_used t \<longrightarrow>
      tester_setup x (t, w) = (Inl (RuntimeError ''Tester can not be reused.''), t, w))
   \<and> (fst (tester_setup x (t, w)) = Inr () \<and> fst (teardown (snd (tester_setup x (t, w)))) = Inr ()
        \<longrightarrow> fst (tester_setup y (snd (teardown (snd (tester_setup x (t, w))))))
              = Inl (RuntimeError ''Tester can not be reused.''))
   \<and> (phase (fst (do_calls cs (Tester a p l cls n, w0))) \<noteq> Fresh
        \<longrightarrow> phase (fst (do_calls (cs @ ds) (Tester a p l cls n, w0))) \<noteq> Fresh
            \<and> (\<exists>msg. fst (tester_setup y (do_calls (cs @ ds) (Tester a p l cls n, w0)))
                      = Inl (RuntimeError msg)))"
proof (intro conjI impI)
  assume "priv_setup t"
  then show "tester_setup x (t, w) = (Inl (RuntimeError ''This tester was already setup.''), t, w)"
    by (simp add: tester_setup_def)
next
  assume "\<not> priv_setup t \<and> priv_used t"
  then show "tester_setup x (t, w) = (Inl (RuntimeError ''Tester can not be reused.''), t, w)"
    by (simp add: tester_setup_def)
next
  assume ok: "fst (tester_setup x (t, w)) = Inr () \<and> fst (teardown (snd (tester_setup x (t, w)))) = Inr ()"
  obtain t1 w1 where s1: "snd (tester_setup x (t, w)) = (t1, w1)" by (cases "snd (tester_setup x (t, w))")
  obtain t2 w2 where s2: "snd (teardown (t1, w1)) = (t2, w2)" by (cases "snd (teardown (t1, w1))")
  from ok s1 have u1: "priv_used t1" using setup_ok_active [of x t w] by simp
  have u2: "priv_used t2" using teardown_keeps_used [OF u1, of w1] s2 by simp
  from ok s1 s2 have "\<not> priv_setup t2" using teardown_ok_inactive [of t1 w1] by simp
  with u2 s1 s2 show "fst (tester_setup y (snd (teardown (snd (tester_setup x (t, w))))))
              = Inl (RuntimeError ''Tester can not be reused.'')"
    by (simp add: tester_setup_def)
next
  let ?t0 = "Tester a p l cls n"
  assume h: "phase (fst (do_calls cs (?t0, w0))) \<noteq> Fresh"
  let ?s = "do_calls cs (?t0, w0)"
  let ?s' = "do_calls (cs @ ds) (?t0, w0)"
  have inv0: "used_inv (fst (?t0, w0))" by (simp add: Tester_inv)
  have inv: "used_inv (fst ?s)" by (rule do_calls_inv [OF inv0])
  with h have "priv_used (fst ?s)" by (simp add: not_fresh_used)
  then have u: "priv_used (fst ?s')" by (simp add: do_calls_append do_calls_used)
  have inv': "used_inv (fst ?s')" by (rule do_calls_inv [OF inv0])
  with u have nf: "phase (fst ?s') \<noteq> Fresh" by (simp add: not_fresh_used)
  obtain t' w' where s': "?s' = (t', w')" by (cases ?s')
  from nf show "phase (fst ?s') \<noteq> Fresh" .
  from u s' have "\<exists>msg. fst (tester_setup y (t', w')) = Inl (RuntimeError msg)"
    by (cases "priv_setup t'") (simp_all add: tester_setup_def)
  with s' show "\<exists>msg. fst (tester_setup y ?s') = Inl (RuntimeError msg)" by simp
qed

theorem C1_setup_one_shot_witness:
  "(let s1 = snd (tester_setup sample_ext (sample_tester, sample_world));
        s2 = snd (teardown s1)
    in phase sample_tester = Fresh
       \<and> fst (tester_setup sample_ext (sample_tester, sample_world)) = Inr ()
       \<and> phase (fst s1) = Active
       \<and> tester_setup sample_ext s1 = (Inl (RuntimeError ''This tester was already setup.''), s1)
       \<and> fst (teardown s1) = Inr ()
       \<and> phase (fst s2) = TornDown
       \<and> tester_setup sample_ext s2 = (Inl (RuntimeError ''Tester can not be reused.''), s2)
       \<and> phase (fst (do_calls [Setup sample_ext, Teardown, Setup sample_ext, Teardown]
                     (sample_tester, sample_world))) = TornDown)"
  using C1_setup_one_shot [where t = "fst (snd (tester_setup sample_ext (sample_tester, sample_world)))"
      and x = sample_ext and w = "snd (snd (tester_setup sample_ext (sample_tester, sample_world)))"
      and y = sample_ext and a = "()" and p = None and l = None and cls = "\<lambda>l. l" and n = 1
      and cs = "[Setup sample_ext]" and ?w0.0 = sample_world and ds = "[]"]
  by (simp add: tester_setup_def teardown_def sample_ext_def sample_tester_def sample_world_def
      sample_socket_def Tester_def phase_def Let_def)


text \<open>
  \<^bold>\<open>C2\<close>. On an active tester \<^verbatim>\<open>url_for\<close> picks its target in this order: a name that
  starts with \<^verbatim>\<open>http://\<close> or \<^verbatim>\<open>https://\<close> is the target itself; otherwise a name that
  starts with \<^verbatim>\<open>/\<close> gives \<^verbatim>\<open>base_url\<close> followed by the name; otherwise the target is
  \<^verbatim>\<open>base_url\<close> followed by the path the application's \<^verbatim>\<open>reverse_url\<close> returns for the
  name and the positional arguments. The result is the target with the keyword arguments
  added as query parameters, and the target itself when there are none.
\<close>

theorem C2_url_for_priority:
  "priv_setup t \<Longrightarrow>
   (startswith name_or_url ''http://'' \<or> startswith name_or_url ''https://'' \<longrightarrow>
      url_for reverse_url urlencode t name_or_url args kwargs
        = Inr (add_query_params urlencode name_or_url kwargs)
      \<and> url_for reverse_url urlencode t name_or_url args [] = Inr name_or_url)
   \<and> (\<not> (startswith name_or_url ''http://'' \<or> startswith name_or_url ''https://'')
        \<and> startswith name_or_url ''/'' \<and> base_url t = Inr b \<longrightarrow>
      url_for reverse_url urlencode t name_or_url args kwargs
        = Inr (add_query_params urlencode (b @ name_or_url) kwargs)
      \<and> url_for reverse_url urlencode t name_or_url args [] = Inr (b @ name_or_url))
   \<and> (\<not> (startswith name_or_url ''http://'' \<or> startswith name_or_url ''https://'')
        \<and> \<not> startswith name_or_url ''/'' \<and> base_url t = Inr b
        \<and> reverse_url (app t) name_or_url args = Inr path \<longrightarrow>
      url_for reverse_url urlencode t name_or_url args kwargs
        = Inr (add_query_params urlencode (b @ path) kwargs)
      \<and> url_for reverse_url urlencode t name_or_url args [] = Inr (b @ path))"
  by (simp add: url_for_def add_query_params_empty)


theorem C2_url_for_priority_witness:
  "priv_setup sample_active
   \<and> url_for sample_reverse_url sample_urlencode sample_active ''https://www.google.com/api'' [] []
       = Inr ''https://www.google.com/api''
   \<and> url_for sample_reverse_url sample_urlencode sample_active ''/hello2'' [] []
       = Inr ''http://127.0.0.1:8080/hello2''
   \<and> url_for sample_reverse_url sample_urlencode sample_active ''hello'' [] []
       = Inr ''http://127.0.0.1:8080/hello''
   \<and> url_for sample_reverse_url sample_urlencode sample_active ''user'' [''foo''] [(''query'', ''baz'')]
       = Inr ''http://127.0.0.1:8080/user/foo?query=baz''"
  using C2_url_for_priority [where t = sample_active and reverse_url = sample_reverse_url
      and urlencode = sample_urlencode and name_or_url = "''https://www.google.com/api''"
      and args = "[]" and kwargs = "[]" and b = "''http://127.0.0.1:8080''" and path = "[]"]
    C2_url_for_priority [where t = sample_active and reverse_url = sample_reverse_url
      and urlencode = sample_urlencode and name_or_url = "''/hello2''"
      and args = "[]" and kwargs = "[]" and b = "''http://127.0.0.1:8080''" and path = "[]"]
    C2_url_for_priority [where t = sample_active and reverse_url = sample_reverse_url
      and urlencode = sample_urlencode and name_or_url = "''hello''"
      and args = "[]" and kwargs = "[]" and b = "''http://127.0.0.1:8080''" and path = "''/hello''"]
    C2_url_for_priority [where t = sample_active and reverse_url = sample_reverse_url
      and urlencode = sample_urlencode and name_or_url = "''user''"
      and args = "[''foo'']" and kwargs = "[(''query'', ''baz'')]"
      and b = "''http://127.0.0.1:8080''" and path = "''/user/foo''"]
  by (simp add: sample_base_url startswith_def sample_reverse_url_def add_query_params_def
      sample_active_eq [THEN arg_cong, of priv_setup] sample_active_eq [THEN arg_cong, of app])




text \<open>
  \<^bold>\<open>C4\<close>, as the code has it. In every run of the adapter on a generator test, for any
  fuel, any generator and any behaviour of the awaited values, the events satisfy
  \<open>every_step_checked\<close> for the loop that was current when the generator first suspended:
  each time the generator, resumed with the result or the exception of an awaited value,
  suspends again while another loop is current, the adapter at once throws the runtime
  error "You cannot use multiple I/O loops in one test." into it, before awaiting
  anything; when the captured loop is current it goes on to await. The check follows
  every such step, the first as well as any later one: a run stops only when the
  generator has ended or an awaited value has raised an exception that is no
  \<^verbatim>\<open>Exception\<close>, and a run that is out of fuel has begun as many iterations as it had
  fuel. When the run is done, the captured loop is current again.
  The adapter's own throw is not followed by a check: what the generator yields in reply
  is awaited, and the check comes again after the next step. The counterexample is a
  generator that catches the error and yields \<^verbatim>\<open>d\<close> while loop 2 is still current and
  loop 1 is the captured one; \<^verbatim>\<open>d\<close> is awaited.
\<close>

theorem C4_loop_checked_every_step:
  assumes "generator (init args) Next w = (Yield first s, w1)"
    and "gen_test fuel await (GeneratorFunction init generator) args w = (res, w', evs)"
  shows "every_step_checked (current w1) evs
     \<and> (res = None \<longrightarrow> awaits evs = fuel)
     \<and> (\<forall>out. res = Some out \<longrightarrow> ended_by out evs \<and> current w' = current w1)"
proof -
  let ?run = "with_ioloop fuel await generator (current w1) first s w1"
  from assms have r: "run_sync (current w1) ?run = (res, w', evs)"
    by (simp add: gen_test_def)
  have ok: "run_ok (current w1) fuel ?run" by (rule with_ioloop_ok)
  from r have e: "snd (snd ?run) = evs" using run_sync_events [of "current w1" ?run] by simp
  from r have f: "fst ?run = res" using run_sync_result [of "current w1" ?run] by simp
  from ok e f have a: "every_step_checked (current w1) evs"
    and b: "case res of None \<Rightarrow> awaits evs = fuel | Some out \<Rightarrow> ended_by out evs"
    by (cases ?run; simp add: run_ok_def)+
  have c: "current w' = current w1" if "res = Some out" for out
    using run_sync_current [of ?run out "current w1"] f that r by simp
  from a b c show ?thesis by (cases res) simp_all
qed

theorem C4_injected_throw_counterexample:
  "gen_test 9 sample_await sample_test () sample_world
     = (Some (Returned ()), sample_world\<lparr>current := 1\<rparr>,
        [Awaited ''a'', Resumed (Send ''Hello'') (Some 1),
         Awaited ''b'', Resumed (Send ''Hello'') (Some 2),
         Resumed (Throw multiple_loops_error) (Some 2),
         Awaited ''d'', Resumed (Send ''Hello'') (Some 2),
         Resumed (Throw multiple_loops_error) None])
   \<and> \<not> claimed_every_resume_checked 1
        [Awaited ''a'', Resumed (Send ''Hello'') (Some 1),
         Awaited ''b'', Resumed (Send ''Hello'') (Some 2),
         Resumed (Throw multiple_loops_error) (Some 2),
         Awaited ''d'', Resumed (Send ''Hello'') (Some 2),
         Resumed (Throw multiple_loops_error) None]"
proof -
  have nine: "(9::nat) = Suc (Suc (Suc (Suc (Suc (Suc (Suc (Suc (Suc 0))))))))" by simp
  show ?thesis
    unfolding nine
    by (simp add: gen_test_def run_sync_def sample_test_def sample_await_def sample_world_def
        multiple_loops_error_def)
qed

theorem C4_loop_checked_every_step_witness:
  "sample_generator 0 Next sample_world = (Yield ''a'' 1, sample_world\<lparr>current := 1\<rparr>)
   \<and> gen_test 9 sample_await sample_test () sample_world
       = (Some (Returned ()), sample_world\<lparr>current := 1\<rparr>,
          [Awaited ''a'', Resumed (Send ''Hello'') (Some 1),
           Awaited ''b'', Resumed (Send ''Hello'') (Some 2),
           Resumed (Throw multiple_loops_error) (Some 2),
           Awaited ''d'', Resumed (Send ''Hello'') (Some 2),
           Resumed (Throw multiple_loops_error) None])
   \<and> every_step_checked 1
        [Awaited ''a'', Resumed (Send ''Hello'') (Some 1),
         Awaited ''b'', Resumed (Send ''Hello'') (Some 2),
         Resumed (Throw multiple_loops_error) (Some 2),
         Awaited ''d'', Resumed (Send ''Hello'') (Some 2),
         Resumed (Throw multiple_loops_error) None]
   \<and> gen_test 2 sample_await sample_test () sample_world
       = (None, sample_world\<lparr>current := 2\<rparr>,
          [Awaited ''a'', Resumed (Send ''Hello'') (Some 1),
           Awaited ''b'', Resumed (Send ''Hello'') (Some 2),
           Resumed (Throw multiple_loops_error) (Some 2)])
   \<and> awaits [Awaited ''a'', Resumed (Send ''Hello'') (Some 1),
              Awaited ''b'', Resumed (Send ''Hello'') (Some (2::nat)),
              Resumed (Throw multiple_loops_error) (Some 2) :: (string, string) adapter_event] = 2"
proof -
  let ?evs9 = "[Awaited ''a'', Resumed (Send ''Hello'') (Some 1),
           Awaited ''b'', Resumed (Send ''Hello'') (Some 2),
           Resumed (Throw multiple_loops_error) (Some 2),
           Awaited ''d'', Resumed (Send ''Hello'') (Some 2),
           Resumed (Throw multiple_loops_error) None] :: (string, string) adapter_event list"
  let ?evs2 = "[Awaited ''a'', Resumed (Send ''Hello'') (Some 1),
           Awaited ''b'', Resumed (Send ''Hello'') (Some 2),
           Resumed (Throw multiple_loops_error) (Some 2)] :: (string, string) adapter_event list"
  have g: "sample_generator ((\<lambda>args. 0) ()) Next sample_world
      = (Yield ''a'' 1, sample_world\<lparr>current := 1\<rparr>)"
    by simp
  have nine: "(9::nat) = Suc (Suc (Suc (Suc (Suc (Suc (Suc (Suc (Suc 0))))))))" by simp
  have two: "(2::nat) = Suc (Suc 0)" by simp
  have run9: "gen_test 9 sample_await (GeneratorFunction (\<lambda>args. 0) sample_generator) ()
      sample_world = (Some (Returned ()), sample_world\<lparr>current := 1\<rparr>, ?evs9)"
    unfolding nine
    by (simp add: gen_test_def run_sync_def sample_await_def sample_world_def
        multiple_loops_error_def)
  have run2: "gen_test 2 sample_await (GeneratorFunction (\<lambda>args. 0) sample_generator) ()
      sample_world = (None, sample_world\<lparr>current := 2\<rparr>, ?evs2)"
    unfolding two
    by (simp add: gen_test_def run_sync_def sample_await_def sample_world_def
        multiple_loops_error_def)
  from C4_loop_checked_every_step [OF g run9]
  have a: "every_step_checked 1 ?evs9" by (simp add: sample_world_def)
  from C4_loop_checked_every_step [OF g run2]
  have b: "awaits ?evs2 = 2" by simp
  from g run9 run2 a b show ?thesis by (simp add: sample_test_def)
qed




text \<open>
  \<^bold>\<open>C6\<close>. The claim fails on the code for a response whose \<^verbatim>\<open>Content-Encoding\<close> header
  is a \<^verbatim>\<open>str\<close>, as the headers of the framework's responses are: \<^verbatim>\<open>encoding\<close> calls
  \<^verbatim>\<open>.decode()\<close> on it and raises AttributeError instead of returning the value. The
  \<^verbatim>\<open>Content-Type\<close> branch next to it takes the header's value as the \<^verbatim>\<open>str\<close> it is.
\<close>

theorem C6_content_encoding_str_raises:
  "encoding decode get_param
     \<lparr>resp_headers = [''Content-Encoding'' \<mapsto> PyStr ''gzip''], resp_body = ''Hello''\<rparr>
     = Inl (AttributeError ''decode'')
   \<and> encoding decode get_param
       \<lparr>resp_headers = [''Content-Type'' \<mapsto> PyStr ''text/plain; charset=iso-8859-1''],
        resp_body = ''Hello''\<rparr>
     = Inr (get_param ''Content-Type: text/plain; charset=iso-8859-1'' ''utf-8'')
   \<and> encoding decode get_param \<lparr>resp_headers = Map.empty, resp_body = ''Hello''\<rparr>
     = Inr ''utf-8''"
  by (simp add: encoding_def)



text \<open>
  \<^bold>\<open>C8\<close>. On a tester that is not active (fresh or torn down) the properties
  \<^verbatim>\<open>sock\<close>, \<^verbatim>\<open>http_server\<close>, \<^verbatim>\<open>http_client\<close> and \<^verbatim>\<open>base_url\<close> and the method
  \<^verbatim>\<open>url_for\<close> each raise the runtime error "Tester should be set up before using this
  property." (for \<^verbatim>\<open>url_for\<close>: "... this method.").
\<close>

theorem C8_not_set_up:
  "phase t = Fresh \<or> phase t = TornDown \<Longrightarrow>
     sock t = Inl (RuntimeError ''Tester should be set up before using this property.'')
     \<and> http_server t = Inl (RuntimeError ''Tester should be set up before using this property.'')
     \<and> http_client t = Inl (RuntimeError ''Tester should be set up before using this property.'')
     \<and> base_url t = Inl (RuntimeError ''Tester should be set up before using this property.'')
     \<and> url_for reverse_url urlencode t name_or_url args kwargs
         = Inl (RuntimeError ''Tester should be set up before using this method.'')"
  by (auto simp: phase_def sock_def http_server_def http_client_def base_url_def url_for_def
      not_set_up_property_def not_set_up_method_def split: if_splits)

theorem C8_not_set_up_witness:
  "phase sample_tester = Fresh \<and> phase sample_torn_down = TornDown
   \<and> sock sample_tester = Inl (RuntimeError ''Tester should be set up before using this property.'')
   \<and> http_server sample_torn_down
        = Inl (RuntimeError ''Tester should be set up before using this property.'')
   \<and> http_client sample_torn_down
        = Inl (RuntimeError ''Tester should be set up before using this property.'')
   \<and> base_url sample_torn_down
        = Inl (RuntimeError ''Tester should be set up before using this property.'')
   \<and> url_for sample_reverse_url sample_urlencode sample_torn_down ''/hello'' [] []
        = Inl (RuntimeError ''Tester should be set up before using this method.'')"
  using C8_not_set_up [of sample_tester sample_reverse_url sample_urlencode "''/hello''" "[]" "[]"]
    C8_not_set_up [of sample_torn_down sample_reverse_url sample_urlencode "''/hello''" "[]" "[]"]
  by (simp add: sample_phases)

text \<open>
  \<^bold>\<open>C9\<close>. For a function that is not a generator function the wrapper calls the function
  with the arguments given and ends as the call ends, with its result or its exception
  and in the process state the call left; no fuel is needed, nothing is awaited and no
  generator is resumed (the list of events is empty), and the outcome does not depend on
  the loop's behaviour \<open>await\<close>.
\<close>

theorem C9_plain_function_passthrough:
  assumes "\<not> isgeneratorfunction fn"
  shows "\<exists>f. fn = Function f
     \<and> gen_test fuel await fn args w
         = (Some (case fst (f args w) of Inr r \<Rightarrow> Returned r | Inl e \<Rightarrow> Raised e),
            snd (f args w), [])"
  using assms by (cases fn) (auto simp: gen_test_def split: prod.splits sum.splits)

theorem C9_plain_function_passthrough_witness:
  "\<not> isgeneratorfunction sample_plain_test
   \<and> gen_test 0 sample_await sample_plain_test 41 sample_world
       = (Some (Returned 42), sample_world, [])"
  using C9_plain_function_passthrough [of sample_plain_test 0 sample_await 41 sample_world]
  by (auto simp: sample_plain_test_def)

text \<open>
  \<^bold>\<open>C10\<close>. Whenever \<^verbatim>\<open>fetch\<close> reaches the base client's \<^verbatim>\<open>fetch\<close>, the keyword
  arguments it passes hold neither \<^verbatim>\<open>form\<close> nor \<^verbatim>\<open>files\<close>, every keyword argument
  other than \<^verbatim>\<open>form\<close>, \<^verbatim>\<open>files\<close>, \<^verbatim>\<open>headers\<close>, \<^verbatim>\<open>method\<close> and \<^verbatim>\<open>body\<close> is the one the
  caller gave (and absent when the caller gave none), and \<^verbatim>\<open>request\<close>, \<^verbatim>\<open>callback\<close> and
  \<^verbatim>\<open>raise_error\<close> are the caller's. The base client is reached for all keyword arguments
  whose form, files and headers are of the expected kinds.
\<close>

theorem C10_fetch_forwards_kwargs:
  fixes kwargs0 :: "'o kwargs"
  shows "(typed_kwargs kwargs0 \<longrightarrow> (\<exists>c. fetch urlencode drawn rq cb re kwargs0 = Inr c))
    \<and> (\<forall>c. fetch urlencode drawn rq cb re kwargs0 = Inr c \<longrightarrow>
          fetch_kwargs c ''form'' = None \<and> fetch_kwargs c ''files'' = None
          \<and> (\<forall>k. k \<notin> {''form'', ''files'', ''headers'', ''method'', ''body''}
                \<longrightarrow> fetch_kwargs c k = kwargs0 k)
          \<and> fetch_request c = rq \<and> fetch_callback c = cb \<and> fetch_raise_error c = re)"
proof (intro conjI impI allI)
  assume "typed_kwargs kwargs0"
  then show "\<exists>c. fetch urlencode drawn rq cb re kwargs0 = Inr c"
    by (rule fetch_typed_returns)
next
  fix c
  assume "fetch urlencode drawn rq cb re kwargs0 = Inr c"
  note fr = fetch_frame [OF this]
  from fr show "fetch_kwargs c ''form'' = None" by (elim conjE)
  from fr show "fetch_kwargs c ''files'' = None" by (elim conjE)
  from fr show "fetch_request c = rq" by (elim conjE)
  from fr show "fetch_callback c = cb" by (elim conjE)
  from fr show "fetch_raise_error c = re" by (elim conjE)
  fix k
  assume "k \<notin> {''form'', ''files'', ''headers'', ''method'', ''body''}"
  with fr show "fetch_kwargs c k = kwargs0 k" by (elim conjE allE [of _ k] impE)
qed


theorem C10_fetch_forwards_kwargs_witness:
  "typed_kwargs [''files'' \<mapsto> FilePairs [sample_file], ''form'' \<mapsto> Obj PyNone,
                 ''request_timeout'' \<mapsto> Other (5::nat)]
   \<and> (\<exists>c. fetch sample_urlencode_form ''abcdefghijklmnopqrst'' ''http://127.0.0.1:8080/hello'' ()
              False
              [''files'' \<mapsto> FilePairs [sample_file], ''form'' \<mapsto> Obj PyNone,
               ''request_timeout'' \<mapsto> Other (5::nat)] = Inr c
          \<and> fetch_kwargs c ''form'' = None \<and> fetch_kwargs c ''files'' = None
          \<and> fetch_kwargs c ''request_timeout'' = Some (Other 5)
          \<and> fetch_request c = ''http://127.0.0.1:8080/hello'' \<and> fetch_callback c = ()
          \<and> fetch_raise_error c = False)"
proof -
  let ?kw = "[''files'' \<mapsto> FilePairs [sample_file], ''form'' \<mapsto> Obj PyNone,
              ''request_timeout'' \<mapsto> Other (5::nat)]"
  note inst = C10_fetch_forwards_kwargs [where ?kwargs0.0 = ?kw
      and urlencode = sample_urlencode_form and drawn = "''abcdefghijklmnopqrst''"
      and rq = "''http://127.0.0.1:8080/hello''" and cb = "()" and re = False]
  have t: "typed_kwargs ?kw" by (simp add: typed_kwargs_def)
  from mp [OF inst [THEN conjunct1] t] obtain c where c: "fetch sample_urlencode_form
      ''abcdefghijklmnopqrst'' ''http://127.0.0.1:8080/hello'' () False ?kw = Inr c" ..
  note fr = mp [OF spec [OF inst [THEN conjunct2], of c] c]
  have "fetch_kwargs c ''form'' = None \<and> fetch_kwargs c ''files'' = None
          \<and> fetch_kwargs c ''request_timeout'' = Some (Other 5)
          \<and> fetch_request c = ''http://127.0.0.1:8080/hello'' \<and> fetch_callback c = ()
          \<and> fetch_raise_error c = False"
    using fr by simp
  with c t show ?thesis by (intro conjI exI [of _ c]) simp_all
qed

end
